theory Spec2Isabelle
  imports Main "HOL-Library.AList" "HOL-Library.Sublist"
begin

section \<open>Interactive MCP client: data model\<close>

text \<open>
  A shallow embedding of \<^verbatim>\<open>src/http_client.py\<close> (class \<^verbatim>\<open>MCPInteractiveHTTPClient\<close>) and of
  the \<^verbatim>\<open>async with\<close> block of \<^verbatim>\<open>src/example.py\<close>.

  Python strings are byte lists (\<open>string\<close>); only the ASCII part of \<^verbatim>\<open>str.strip\<close>,
  \<^verbatim>\<open>str.lower\<close> and \<^verbatim>\<open>int\<close> is modelled. Exceptions are values of \<open>exn\<close>; the class
  hierarchy the handlers of the source depend on is kept: every handler but two is
  \<^verbatim>\<open>except Exception\<close>, which does not catch what derives from \<^verbatim>\<open>BaseException\<close> only
  (\<^verbatim>\<open>asyncio.CancelledError\<close>, \<^verbatim>\<open>KeyboardInterrupt\<close>, \<^verbatim>\<open>SystemExit\<close>).
\<close>

datatype exn =
    ValueError string
  | JSONDecodeError string
  | RuntimeError string
  | EOFError
  | OtherException string
  | BaseOnly string

text \<open>\<^verbatim>\<open>except Exception\<close> matches every constructor but \<open>BaseOnly\<close>.\<close>

fun is_Exception :: "exn \<Rightarrow> bool" where
  "is_Exception (BaseOnly _) = False"
| "is_Exception _ = True"

text \<open>\<^verbatim>\<open>except ValueError\<close>: \<^verbatim>\<open>json.JSONDecodeError\<close> is a subclass of \<^verbatim>\<open>ValueError\<close>.\<close>

fun is_ValueError :: "exn \<Rightarrow> bool" where
  "is_ValueError (ValueError _) = True"
| "is_ValueError (JSONDecodeError _) = True"
| "is_ValueError _ = False"

text \<open>\<^verbatim>\<open>str(e)\<close>, as \<^verbatim>\<open>print(e)\<close> and the \<^verbatim>\<open>%s\<close> of a log call show it.\<close>

fun exn_str :: "exn \<Rightarrow> string" where
  "exn_str (ValueError m) = m"
| "exn_str (JSONDecodeError m) = m"
| "exn_str (RuntimeError m) = m"
| "exn_str EOFError = ''EOF when reading a line''"
| "exn_str (OtherException m) = m"
| "exn_str (BaseOnly m) = m"

text \<open>A double is \<open>m * 2 ^ e\<close>, an infinity (\<open>True\<close> for the negative one) or not a number.\<close>

datatype py_float = Double int int | Infinity bool | NaN

text \<open>
  The values an argument can take: what \<^verbatim>\<open>_parse_schema_value\<close> returns, and what
  \<^verbatim>\<open>json.loads\<close> and \<^verbatim>\<open>model_dump(mode="json")\<close> produce. A dict is an association list in
  insertion order.
\<close>

datatype json =
    JNull
  | JBool bool
  | JInt int
  | JFloat py_float
  | JStr string
  | JArr "json list"
  | JObj "(string \<times> json) list"

type_synonym arguments = "(string \<times> json) list"

record prop_def =
  pd_description :: "string option"
  pd_type :: "string option"

record schema =
  properties :: "(string \<times> prop_def) list option"
  required :: "string list option"

record tool =
  tool_name :: string
  tool_description :: "string option"
  inputSchema :: schema

subsection \<open>Console, log and the collaborators\<close>

datatype level = INFO | WARNING | ERROR

datatype log_arg =
    AStr string
  | AInt int
  | AOptStr "string option"
  | AExn exn
  | AArgs arguments

datatype transport_ctx = StreamableHttp string | Sse string

datatype ext_op =
    CtxEnter transport_ctx
  | CtxExit
  | SessEnter
  | SessExit
  | SessInitialize
  | SessListTools
  | SessCallTool string arguments

datatype status = Returned | Raised exn

text \<open>
  Everything observable, oldest first: a line printed to standard output, a prompt written
  by \<^verbatim>\<open>input\<close>, a log record (level, format string, arguments, \<^verbatim>\<open>exc_info\<close>) and an awaited
  call on the transport context manager or on the \<^verbatim>\<open>ClientSession\<close>, with how it ended.
\<close>

datatype event =
    Print string
  | Prompt string
  | Log level string "log_arg list" bool
  | Ext ext_op status

record world =
  stdin :: "string list"
  trace :: "event list"

definition emit :: "event \<Rightarrow> world \<Rightarrow> world" where
  "emit ev w = w\<lparr>trace := trace w @ [ev]\<rparr>"

definition print :: "string \<Rightarrow> world \<Rightarrow> world" where
  "print s w = emit (Print s) w"

definition log :: "level \<Rightarrow> string \<Rightarrow> log_arg list \<Rightarrow> world \<Rightarrow> world" where
  "log lv fmt args w = emit (Log lv fmt args False) w"

definition log_exc :: "level \<Rightarrow> string \<Rightarrow> log_arg list \<Rightarrow> world \<Rightarrow> world" where
  "log_exc lv fmt args w = emit (Log lv fmt args True) w"

text \<open>
  \<^verbatim>\<open>input(prompt)\<close>: writes the prompt and returns the next line of standard input without
  its newline; at the end of the input it raises \<^verbatim>\<open>EOFError\<close>.
\<close>

definition input :: "string \<Rightarrow> world \<Rightarrow> (exn + string) \<times> world" where
  "input prompt w =
     (case stdin w of
        [] \<Rightarrow> (Inl EOFError, emit (Prompt prompt) w)
      | l # ls \<Rightarrow> (Inr l, emit (Prompt prompt) (w\<lparr>stdin := ls\<rparr>)))"

text \<open>An awaited call of a collaborator: the event is recorded with the way it ended.\<close>

definition await :: "ext_op \<Rightarrow> exn + 'r \<Rightarrow> world \<Rightarrow> (exn + 'r) \<times> world" where
  "await op r w =
     (case r of
        Inr v \<Rightarrow> (Inr v, emit (Ext op Returned) w)
      | Inl e \<Rightarrow> (Inl e, emit (Ext op (Raised e)) w))"

subsection \<open>Text primitives of the Python library\<close>

definition sq :: char where "sq = CHR 0x27"
definition dq :: char where "dq = CHR 0x22"
definition backslash :: char where "backslash = CHR 0x5C"
definition newline :: char where "newline = CHR 0x0A"

text \<open>\<^verbatim>\<open>str.isspace\<close> on ASCII: tab to carriage return, the four separators, the space.\<close>

definition is_space :: "char \<Rightarrow> bool" where
  "is_space c = (let n = (of_char c :: nat) in (9 \<le> n \<and> n \<le> 13) \<or> (28 \<le> n \<and> n \<le> 32))"

definition strip :: "string \<Rightarrow> string" where
  "strip s = rev (dropWhile is_space (rev (dropWhile is_space s)))"

definition lower_char :: "char \<Rightarrow> char" where
  "lower_char c = (let n = (of_char c :: nat) in if 65 \<le> n \<and> n \<le> 90 then char_of (n + 32) else c)"

definition lower :: "string \<Rightarrow> string" where
  "lower s = map lower_char s"

definition is_digit :: "char \<Rightarrow> bool" where
  "is_digit c = (let n = (of_char c :: nat) in 48 \<le> n \<and> n \<le> 57)"

definition digit_val :: "char \<Rightarrow> nat" where
  "digit_val c = of_char c - 48"

text \<open>\<^verbatim>\<open>str(n)\<close> for a natural number.\<close>

fun str_of_nat :: "nat \<Rightarrow> string" where
  "str_of_nat n =
     (if n < 10 then [char_of (48 + n)]
      else str_of_nat (n div 10) @ [char_of (48 + n mod 10)])"

declare str_of_nat.simps [simp del]

definition hex_digit :: "nat \<Rightarrow> char" where
  "hex_digit n = (if n < 10 then char_of (48 + n) else char_of (87 + n))"

text \<open>\<^verbatim>\<open>repr\<close> of a string: the quote is the double one only when the text holds a single
  quote and no double one; the quote, the backslash and the control characters are escaped.\<close>

definition repr_char :: "char \<Rightarrow> char \<Rightarrow> string" where
  "repr_char q c =
     (let n = (of_char c :: nat) in
      if c = q \<or> c = backslash then [backslash, c]
      else if n = 9 then [backslash, CHR ''t'']
      else if n = 10 then [backslash, CHR ''n'']
      else if n = 13 then [backslash, CHR ''r'']
      else if n < 32 \<or> n = 127 then [backslash, CHR ''x'', hex_digit (n div 16), hex_digit (n mod 16)]
      else [c])"

definition py_repr :: "string \<Rightarrow> string" where
  "py_repr s =
     (let q = (if sq \<in> set s \<and> dq \<notin> set s then dq else sq)
      in q # concat (map (repr_char q) s) @ [q])"

text \<open>
  \<^verbatim>\<open>int(s)\<close> in base 10: surrounding whitespace is dropped, one sign is allowed, then
  digits, where a single underscore may stand between two digits. Anything else raises
  \<^verbatim>\<open>ValueError\<close>. (The interpreter's limit of 4300 digits is left out.)
\<close>

fun int_digits :: "string \<Rightarrow> nat \<Rightarrow> nat option" where
  "int_digits [] acc = Some acc"
| "int_digits (c # cs) acc =
     (if is_digit c then int_digits cs (10 * acc + digit_val c)
      else if c = CHR ''_'' then
        (case cs of
           [] \<Rightarrow> None
         | d # ds \<Rightarrow> if is_digit d then int_digits cs acc else None)
      else None)"

definition unsigned_literal :: "string \<Rightarrow> nat option" where
  "unsigned_literal s =
     (case s of
        [] \<Rightarrow> None
      | c # cs \<Rightarrow> if is_digit c then int_digits s 0 else None)"

definition int_literal :: "string \<Rightarrow> int option" where
  "int_literal s =
     (case s of
        [] \<Rightarrow> None
      | c # cs \<Rightarrow>
          if c = CHR ''-'' then map_option (\<lambda>n. - int n) (unsigned_literal cs)
          else if c = CHR ''+'' then map_option int (unsigned_literal cs)
          else map_option int (unsigned_literal s))"

definition py_int :: "string \<Rightarrow> exn + int" where
  "py_int s =
     (case int_literal (strip s) of
        Some i \<Rightarrow> Inr i
      | None \<Rightarrow> Inl (ValueError (''invalid literal for int() with base 10: '' @ py_repr s)))"

section \<open>Tool selection\<close>

text \<open>The line \<^verbatim>\<open>f"{i}. {tool.name} - {tool.description or ''}"\<close>.\<close>

definition listing_line :: "nat \<times> tool \<Rightarrow> string" where
  "listing_line p =
     str_of_nat (fst p) @ ''. '' @ tool_name (snd p) @ '' - '' @
     (case tool_description (snd p) of None \<Rightarrow> [] | Some d \<Rightarrow> d)"

text \<open>\<^verbatim>\<open>enumerate(tools, start=1)\<close>.\<close>

definition enumerate1 :: "'a list \<Rightarrow> (nat \<times> 'a) list" where
  "enumerate1 xs = zip [1 ..< Suc (length xs)] xs"

definition choose_tool :: "tool list \<Rightarrow> world \<Rightarrow> (exn + tool option) \<times> world" where
  "choose_tool tools w =
     (if tools = [] then (Inr None, w)
      else
        let w1 = print (newline # ''Available tools:'') w;
            w2 = fold (\<lambda>p. print (listing_line p)) (enumerate1 tools) w1
        in case input (newline # ''Select a tool by number: '') w2 of
             (Inl e, w3) \<Rightarrow> (Inl e, w3)
           | (Inr line, w3) \<Rightarrow>
               let choice = strip line in
               (case py_int choice of
                  Inr idx \<Rightarrow>
                    if 1 \<le> idx \<and> idx \<le> int (length tools) then
                      let chosen = tools ! nat (idx - 1)
                      in (Inr (Some chosen),
                          log INFO (''User selected tool: '%s'' @ [sq]) [AStr (tool_name chosen)] w3)
                    else (Inr None, w3)
                | Inl e \<Rightarrow>
                    if is_ValueError e then
                      (Inr None,
                       log WARNING (''User entered invalid tool index: '%s'' @ [sq]) [AStr choice] w3)
                    else (Inl e, w3)))"

section \<open>Library functions taken as parameters, and the collaborators\<close>

text \<open>
  \<^verbatim>\<open>float\<close>, \<^verbatim>\<open>json.loads\<close> and \<^verbatim>\<open>json.dumps(_, indent=2)\<close> belong to the Python library, the
  transport context managers and the \<^verbatim>\<open>ClientSession\<close> to the \<^verbatim>\<open>mcp\<close> package: none is code of
  this repository, so each is a parameter. A collaborator answers from the history so far
  (the trace), which makes it an arbitrary deterministic environment; \<open>Inl\<close> is a raised
  exception. A context manager's exit also gets the exception in flight, if any.
\<close>

record channel =
  ch_get_session_id :: "string option option"

record env =
  float_of_str :: "string \<Rightarrow> exn + py_float"
  json_loads :: "string \<Rightarrow> exn + json"
  json_dumps :: "json \<Rightarrow> string"
  transport_enter :: "event list \<Rightarrow> transport_ctx \<Rightarrow> exn + channel"
  transport_exit :: "event list \<Rightarrow> exn option \<Rightarrow> exn + unit"
  session_enter :: "event list \<Rightarrow> exn + unit"
  session_exit :: "event list \<Rightarrow> exn option \<Rightarrow> exn + unit"
  session_initialize :: "event list \<Rightarrow> exn + unit"
  session_list_tools :: "event list \<Rightarrow> exn + tool list"
  session_call_tool :: "event list \<Rightarrow> string \<Rightarrow> arguments \<Rightarrow> exn + json"

section \<open>Schema prompter\<close>

text \<open>\<^verbatim>\<open>_parse_schema_value\<close> (an Isabelle name cannot start with an underscore).\<close>

definition parse_schema_value :: "env \<Rightarrow> string \<Rightarrow> string \<Rightarrow> string \<Rightarrow> exn + json" where
  "parse_schema_value env prop_name prop_type value_str =
     (if prop_type = ''integer'' then map_sum id JInt (py_int value_str)
      else if prop_type = ''number'' then map_sum id JFloat (float_of_str env value_str)
      else if prop_type = ''boolean'' then
        (let lowered = lower value_str in
         if lowered \<in> set [''true'', ''1'', ''yes'', ''y''] then Inr (JBool True)
         else if lowered \<in> set [''false'', ''0'', ''no'', ''n''] then Inr (JBool False)
         else Inl (ValueError ''Please enter true/false.''))
      else if prop_type \<in> set [''array'', ''object''] then
        (case json_loads env value_str of
           Inr v \<Rightarrow> Inr v
         | Inl (JSONDecodeError m) \<Rightarrow>
             Inl (ValueError (''Please enter valid JSON for '' @ prop_type @ '': '' @ m))
         | Inl e \<Rightarrow> Inl e)
      else Inr (JStr value_str))"

text \<open>\<^verbatim>\<open>prop_def.get("type", "string")\<close> and \<^verbatim>\<open>prop_def.get("description", "")\<close>.\<close>

definition prop_type_of :: "prop_def \<Rightarrow> string" where
  "prop_type_of d = (case pd_type d of None \<Rightarrow> ''string'' | Some t \<Rightarrow> t)"

definition prop_desc_of :: "prop_def \<Rightarrow> string" where
  "prop_desc_of d = (case pd_description d of None \<Rightarrow> [] | Some t \<Rightarrow> t)"

text \<open>\<^verbatim>\<open>input_schema.get("properties", {})\<close> and \<^verbatim>\<open>input_schema.get("required", [])\<close>.\<close>

definition schema_props_of :: "schema \<Rightarrow> (string \<times> prop_def) list" where
  "schema_props_of sc = (case properties sc of None \<Rightarrow> [] | Some ps \<Rightarrow> ps)"

definition required_of :: "schema \<Rightarrow> string list" where
  "required_of sc = (case required sc of None \<Rightarrow> [] | Some rs \<Rightarrow> rs)"

definition prop_label :: "string \<Rightarrow> prop_def \<Rightarrow> bool \<Rightarrow> string" where
  "prop_label prop_name d is_required =
     (let desc = prop_desc_of d;
          prop_type = prop_type_of d;
          l1 = prop_name @ '' ('' @ prop_type @ '')'';
          l2 = (if desc \<noteq> [] then l1 @ '' - '' @ desc else l1);
          l3 = l2 @ (if is_required then '' [required]'' else '' [optional]'')
      in if prop_type \<in> set [''array'', ''object''] then l3 @ '' (enter JSON value)'' else l3)"

section \<open>Client state and session lifecycle\<close>

datatype session_handle = ClientSession

text \<open>
  The fields of the instance. \<open>ctx\<close> and \<open>session\<close> are \<^verbatim>\<open>_ctx\<close> and \<^verbatim>\<open>_session\<close>; both are
  assigned before the object is entered. The two stream handles are opaque and only passed
  on to the session, so they are not kept.
\<close>

record client =
  url :: string
  transport :: string
  ctx :: "transport_ctx option"
  get_session_id :: "string option option"
  session :: "session_handle option"

text \<open>\<^verbatim>\<open>__init__\<close>; the configuration of the root logger is outside the model.\<close>

definition init_client :: "string \<Rightarrow> string \<Rightarrow> bool \<Rightarrow> world \<Rightarrow> client \<times> world" where
  "init_client u t activate_logger w =
     (\<lparr>url = u, transport = t, ctx = None, get_session_id = None, session = None\<rparr>,
      if activate_logger then log INFO ''Logger activated for MCPInteractiveHTTPClient'' [] w else w)"

text \<open>The last three statements of the \<^verbatim>\<open>try\<close> block of \<^verbatim>\<open>__aenter__\<close>.\<close>

definition open_session :: "env \<Rightarrow> client \<Rightarrow> world \<Rightarrow> (exn + unit) \<times> client \<times> world" where
  "open_session env c w =
     (let c1 = c\<lparr>session := Some ClientSession\<rparr> in
      case await SessEnter (session_enter env (trace w)) w of
        (Inl e, w1) \<Rightarrow> (Inl e, c1, w1)
      | (Inr u, w1) \<Rightarrow> (Inr (), c1, log INFO ''ClientSession successfully entered'' [] w1))"

text \<open>The \<^verbatim>\<open>try\<close> block of \<^verbatim>\<open>__aenter__\<close>.\<close>

definition aenter_try :: "env \<Rightarrow> client \<Rightarrow> world \<Rightarrow> (exn + unit) \<times> client \<times> world" where
  "aenter_try env c w =
     (if transport c = ''http'' then
        (let cm = StreamableHttp (url c);
             c1 = c\<lparr>ctx := Some cm\<rparr>
         in case await (CtxEnter cm) (transport_enter env (trace w) cm) w of
              (Inl e, w1) \<Rightarrow> (Inl e, c1, w1)
            | (Inr ch, w1) \<Rightarrow>
                let c2 = c1\<lparr>get_session_id := ch_get_session_id ch\<rparr>;
                    session_id = (case get_session_id c2 of None \<Rightarrow> None | Some sid \<Rightarrow> sid)
                in open_session env c2
                     (log INFO ''Streamable-http session started (session_id=%s)''
                        [AOptStr session_id] w1))
      else if transport c = ''sse'' then
        (let cm = Sse (url c);
             c1 = c\<lparr>ctx := Some cm\<rparr>
         in case await (CtxEnter cm) (transport_enter env (trace w) cm) w of
              (Inl e, w1) \<Rightarrow> (Inl e, c1, w1)
            | (Inr ch, w1) \<Rightarrow>
                open_session env c1 (log INFO ''SSE connection established'' [] w1))
      else
        (Inl (ValueError (''Unknown client transport: '' @ transport c)), c,
         log ERROR (''Unknown client transport: '%s'' @ [sq]) [AStr (transport c)] w))"

definition aenter :: "env \<Rightarrow> client \<Rightarrow> world \<Rightarrow> (exn + unit) \<times> client \<times> world" where
  "aenter env c w =
     (case aenter_try env c
             (log INFO ''Opening interactive client (transport=%s, url=%s)''
                [AStr (transport c), AStr (url c)] w) of
        (Inl e, c1, w1) \<Rightarrow>
          if is_Exception e then
            (Inl e, c1, log_exc ERROR ''Failed to open interactive client: %s'' [AExn e] w1)
          else (Inl e, c1, w1)
      | (Inr u, c1, w1) \<Rightarrow> (Inr (), c1, w1))"

text \<open>The first \<^verbatim>\<open>try\<close> statement of \<^verbatim>\<open>__aexit__\<close>.\<close>

definition close_session :: "env \<Rightarrow> client \<Rightarrow> exn option \<Rightarrow> world \<Rightarrow> (exn + unit) \<times> world" where
  "close_session env c exc w =
     (case session c of
        None \<Rightarrow> (Inr (), w)
      | Some s \<Rightarrow>
          (case await SessExit (session_exit env (trace w) exc) w of
             (Inl e, w1) \<Rightarrow>
               if is_Exception e then
                 (Inr (), log_exc ERROR ''Error while closing ClientSession: %s'' [AExn e] w1)
               else (Inl e, w1)
           | (Inr u, w1) \<Rightarrow> (Inr (), log INFO ''ClientSession closed'' [] w1)))"

text \<open>The second \<^verbatim>\<open>try\<close> statement of \<^verbatim>\<open>__aexit__\<close>.\<close>

definition close_transport :: "env \<Rightarrow> client \<Rightarrow> exn option \<Rightarrow> world \<Rightarrow> (exn + unit) \<times> world" where
  "close_transport env c exc w =
     (case ctx c of
        None \<Rightarrow> (Inr (), w)
      | Some cm \<Rightarrow>
          (case await CtxExit (transport_exit env (trace w) exc) w of
             (Inl e, w1) \<Rightarrow>
               if is_Exception e then
                 (Inr (), log_exc ERROR ''Error while closing transport context: %s'' [AExn e] w1)
               else (Inl e, w1)
           | (Inr u, w1) \<Rightarrow> (Inr (), log INFO ''Transport context closed'' [] w1)))"

text \<open>\<^verbatim>\<open>__aexit__(exc_type, exc, tb)\<close>; it returns \<^verbatim>\<open>None\<close>, so it never suppresses \<open>exc\<close>.\<close>

definition aexit :: "env \<Rightarrow> client \<Rightarrow> exn option \<Rightarrow> world \<Rightarrow> (exn + unit) \<times> world" where
  "aexit env c exc w =
     (case close_session env c exc (log INFO ''Closing interactive client'' [] w) of
        (Inl e, w1) \<Rightarrow> (Inl e, w1)
      | (Inr u, w1) \<Rightarrow> close_transport env c exc w1)"

text \<open>
  The statement \<^verbatim>\<open>async with client as c: body\<close> of \<^verbatim>\<open>src/example.py\<close>, as the language
  defines it: when \<^verbatim>\<open>__aenter__\<close> raises, \<^verbatim>\<open>__aexit__\<close> is not called; otherwise \<^verbatim>\<open>__aexit__\<close> is
  called once with the exception the body raised, if any, and an exception it raises
  itself replaces the body's outcome.
\<close>

definition async_with ::
  "env \<Rightarrow> client \<Rightarrow> (client \<Rightarrow> world \<Rightarrow> (exn + 'a) \<times> world) \<Rightarrow> world \<Rightarrow> (exn + 'a) \<times> client \<times> world" where
  "async_with env c body w =
     (case aenter env c w of
        (Inl e, c1, w1) \<Rightarrow> (Inl e, c1, w1)
      | (Inr u, c1, w1) \<Rightarrow>
          (case body c1 w1 of
             (r, w2) \<Rightarrow>
               (case aexit env c1 (case r of Inl e \<Rightarrow> Some e | Inr v \<Rightarrow> None) w2 of
                  (Inl e2, w3) \<Rightarrow> (Inl e2, c1, w3)
                | (Inr u2, w3) \<Rightarrow> (r, c1, w3))))"

section \<open>Handshake, discovery and invocation\<close>

definition initialize :: "env \<Rightarrow> client \<Rightarrow> world \<Rightarrow> (exn + unit) \<times> world" where
  "initialize env c w =
     (if session c = None then (Inl (RuntimeError ''Session not started''), w)
      else
        let w0 = log INFO ''Initializing MCP session'' [] w in
        case await SessInitialize (session_initialize env (trace w0)) w0 of
          (Inl e, w1) \<Rightarrow>
            if is_Exception e then (Inl e, log_exc ERROR ''Initialize failed: %s'' [AExn e] w1)
            else (Inl e, w1)
        | (Inr u, w1) \<Rightarrow> (Inr (), log INFO ''MCP session successfully initialized'' [] w1))"

definition list_tools :: "env \<Rightarrow> client \<Rightarrow> world \<Rightarrow> (exn + tool list) \<times> world" where
  "list_tools env c w =
     (if session c = None then (Inl (RuntimeError ''Session not started''), w)
      else
        let w0 = log INFO ''Requesting tools/list'' [] w in
        case await SessListTools (session_list_tools env (trace w0)) w0 of
          (Inl e, w1) \<Rightarrow>
            if is_Exception e then (Inl e, log_exc ERROR ''tools/list failed: %s'' [AExn e] w1)
            else (Inl e, w1)
        | (Inr tools, w1) \<Rightarrow>
            (Inr tools, log INFO ''Received %d tools'' [AInt (int (length tools))] w1))"

definition list_tools_simple :: "env \<Rightarrow> client \<Rightarrow> world \<Rightarrow> (exn + string list) \<times> world" where
  "list_tools_simple env c w =
     (case list_tools env c w of
        (Inl e, w1) \<Rightarrow> (Inl e, w1)
      | (Inr tools, w1) \<Rightarrow> (Inr (map tool_name tools), w1))"

subsection \<open>The readability rendering\<close>

text \<open>
  \<^verbatim>\<open>s.replace(old, new)\<close>: the occurrences of \<open>old\<close> are found from the left and do not
  overlap; for the empty \<open>old\<close>, \<open>new\<close> is put before every character and at the end.
\<close>

function py_replace :: "string \<Rightarrow> string \<Rightarrow> string \<Rightarrow> string" where
  "py_replace old new s =
     (if old = [] then new @ concat (map (\<lambda>c. c # new) s)
      else if s = [] then []
      else if prefix old s then new @ py_replace old new (drop (length old) s)
      else hd s # py_replace old new (tl s))"
  by pat_completeness auto
termination
  by (relation "measure (\<lambda>(old, new, s). length s)") auto

declare py_replace.simps [simp del]

text \<open>The two \<^verbatim>\<open>replace\<close> calls of \<^verbatim>\<open>call_tool\<close>.\<close>

definition result_final :: "string \<Rightarrow> string" where
  "result_final result_json_str =
     py_replace [backslash] [] (py_replace [backslash, CHR ''n''] [newline] result_json_str)"

text \<open>
  The specification's words for the same rendering: (a) every literal two-character
  newline escape becomes a line break, then (b) every remaining backslash is removed.
\<close>

fun unescape_newlines :: "string \<Rightarrow> string" where
  "unescape_newlines [] = []"
| "unescape_newlines [c] = [c]"
| "unescape_newlines (c # d # cs) =
     (if c = backslash \<and> d = CHR ''n'' then newline # unescape_newlines cs
      else c # unescape_newlines (d # cs))"

definition readability_rendering :: "string \<Rightarrow> string" where
  "readability_rendering raw = filter (\<lambda>c. c \<noteq> backslash) (unescape_newlines raw)"

definition call_tool :: "env \<Rightarrow> client \<Rightarrow> tool \<Rightarrow> arguments \<Rightarrow> world \<Rightarrow> (exn + json) \<times> world" where
  "call_tool env c t arguments w =
     (if session c = None then (Inl (RuntimeError ''Session not started''), w)
      else
        let w0 = log INFO (''Calling tool '%s'' @ [sq]) [AStr (tool_name t)] w;
            w1 = print (newline # ''Calling tool '' @ [sq] @ tool_name t @ [sq] @ '' with arguments:'') w0;
            w2 = print (json_dumps env (JObj arguments)) w1
        in case await (SessCallTool (tool_name t) arguments)
                  (session_call_tool env (trace w2) (tool_name t) arguments) w2 of
             (Inl e, w3) \<Rightarrow>
               if is_Exception e then
                 (Inl e, log_exc ERROR (''Tool call for '%s' failed: %s'')
                           [AStr (tool_name t), AExn e] w3)
               else (Inl e, w3)
           | (Inr result_dict, w3) \<Rightarrow>
               let result_json_str = json_dumps env result_dict;
                   w4 = print (newline # ''[TOOL RESULT (raw JSON)]'') w3;
                   w5 = print result_json_str w4;
                   w6 = print (newline # ''[FINAL RESULT (rendered for readability, JSON formatting may be invalid)]'') w5;
                   w7 = print (result_final result_json_str) w6
               in (Inr result_dict, w7))"

definition call_tool_by_name :: "env \<Rightarrow> client \<Rightarrow> string \<Rightarrow> arguments \<Rightarrow> world \<Rightarrow> (exn + json) \<times> world" where
  "call_tool_by_name env c nm arguments w =
     (if session c = None then (Inl (RuntimeError ''Session not started''), w)
      else
        let w0 = log INFO (''Calling tool by name '%s' (non-interactive)'') [AStr nm] w
        in case await (SessCallTool nm arguments) (session_call_tool env (trace w0) nm arguments) w0 of
             (Inl e, w1) \<Rightarrow>
               if is_Exception e then
                 (Inl e, log_exc ERROR (''Non-interactive tool call for '%s' failed: %s'')
                           [AStr nm, AExn e] w1)
               else (Inl e, w1)
           | (Inr result_dict, w1) \<Rightarrow> (Inr result_dict, w1))"

section \<open>Basic facts about the world\<close>

lemma stdin_emit [simp]: "stdin (emit ev w) = stdin w"
  by (simp add: emit_def)

lemma trace_emit [simp]: "trace (emit ev w) = trace w @ [ev]"
  by (simp add: emit_def)

lemma stdin_print [simp]: "stdin (print s w) = stdin w"
  by (simp add: print_def)

lemma stdin_log [simp]: "stdin (log lv f a w) = stdin w"
  by (simp add: log_def)

lemma stdin_log_exc [simp]: "stdin (log_exc lv f a w) = stdin w"
  by (simp add: log_exc_def)

lemma stdin_fold_print [simp]: "stdin (fold (\<lambda>p. print (g p)) ps w) = stdin w"
  by (induction ps arbitrary: w) simp_all

lemma py_int_raises_ValueError: "py_int s = Inl e \<Longrightarrow> is_ValueError e"
  by (auto simp: py_int_def split: option.splits)

section \<open>The prompting loops and the interactive controller\<close>

text \<open>Every \<^verbatim>\<open>while True\<close> loop of the source reads a line in each round, so on a finite
  standard input it ends: with a result, or with the \<^verbatim>\<open>EOFError\<close> of \<^verbatim>\<open>input\<close>.\<close>

lemma input_stdin_less: "input p w = (Inr l, w1) \<Longrightarrow> length (stdin w1) < length (stdin w)"
  by (auto simp: input_def split: list.splits)

lemma input_stdin_le: "input p w = (r, w1) \<Longrightarrow> length (stdin w1) \<le> length (stdin w)"
  by (auto simp: input_def split: list.splits)

text \<open>The \<^verbatim>\<open>while True\<close> loop of \<^verbatim>\<open>prompt_arguments_for_tool\<close> for one property.\<close>

function prompt_value ::
  "env \<Rightarrow> string \<Rightarrow> string \<Rightarrow> string \<Rightarrow> bool \<Rightarrow> arguments \<Rightarrow> world \<Rightarrow> (exn + arguments) \<times> world" where
  "prompt_value env label prop_name prop_type is_required arguments w =
     (case input (label @ '': '') w of
        (Inl e, w1) \<Rightarrow> (Inl e, w1)
      | (Inr line, w1) \<Rightarrow>
          let value_str = strip line in
          if value_str = [] then
            (if is_required then
               prompt_value env label prop_name prop_type is_required arguments
                 (log WARNING (''Required field '%s' left empty by user'') [AStr prop_name]
                    (print ''This field is required.'' w1))
             else (Inr arguments, w1))
          else
            (case parse_schema_value env prop_name prop_type value_str of
               Inl e \<Rightarrow>
                 if is_ValueError e then
                   prompt_value env label prop_name prop_type is_required arguments
                     (log WARNING (''Invalid value for '%s': '%s' (%s)'')
                        [AStr prop_name, AStr value_str, AExn e]
                        (print (exn_str e) w1))
                 else (Inl e, w1)
             | Inr v \<Rightarrow> (Inr (AList.update prop_name v arguments), w1)))"
  by pat_completeness auto
termination
  by (relation "measure (\<lambda>(env, label, prop_name, prop_type, is_required, arguments, w). length (stdin w))")
     (auto dest: input_stdin_less [OF sym])

declare prompt_value.simps [simp del]

text \<open>The \<^verbatim>\<open>for prop_name, prop_def in schema_props.items()\<close> loop.\<close>

fun prompt_props ::
  "env \<Rightarrow> string list \<Rightarrow> (string \<times> prop_def) list \<Rightarrow> arguments \<Rightarrow> world \<Rightarrow> (exn + arguments) \<times> world" where
  "prompt_props env req [] arguments w = (Inr arguments, w)"
| "prompt_props env req ((prop_name, d) # rest) arguments w =
     (let is_required = (prop_name \<in> set req);
          label = prop_label prop_name d is_required
      in case prompt_value env label prop_name (prop_type_of d) is_required arguments w of
           (Inl e, w1) \<Rightarrow> (Inl e, w1)
         | (Inr arguments1, w1) \<Rightarrow> prompt_props env req rest arguments1 w1)"

definition prompt_arguments_for_tool :: "env \<Rightarrow> tool \<Rightarrow> world \<Rightarrow> (exn + arguments) \<times> world" where
  "prompt_arguments_for_tool env t w =
     (let nm = tool_name t;
          input_schema = inputSchema t;
          schema_props = schema_props_of input_schema;
          req = required_of input_schema;
          w0 = print (newline # ''Tool '' @ [sq] @ nm @ [sq] @ '' argument schema:'') w
      in if schema_props = [] then
           (Inr [],
            log INFO (''Tool '%s' has no input schema; using empty arguments'') [AStr nm]
              (print ''  (no schema provided, using empty arguments {})'' w0))
         else
           (case prompt_props env req schema_props [] w0 of
              (Inl e, w1) \<Rightarrow> (Inl e, w1)
            | (Inr arguments, w1) \<Rightarrow>
                (Inr arguments,
                 log INFO (''Collected arguments for tool '%s': '%s'' @ [sq])
                   [AStr nm, AArgs arguments] w1)))"

text \<open>The \<^verbatim>\<open>try\<close> block inside the loop of \<^verbatim>\<open>run\<close>: it ends with \<^verbatim>\<open>continue\<close> (no tool chosen),
  with the call made, or with an exception.\<close>

datatype step = Reprompt | Called

definition loop_body :: "env \<Rightarrow> client \<Rightarrow> tool list \<Rightarrow> world \<Rightarrow> (exn + step) \<times> world" where
  "loop_body env c tools w =
     (case choose_tool tools w of
        (Inl e, w1) \<Rightarrow> (Inl e, w1)
      | (Inr None, w1) \<Rightarrow> (Inr Reprompt, w1)
      | (Inr (Some chosen_tool), w1) \<Rightarrow>
          (case prompt_arguments_for_tool env chosen_tool w1 of
             (Inl e, w2) \<Rightarrow> (Inl e, w2)
           | (Inr arguments, w2) \<Rightarrow>
               (case call_tool env c chosen_tool arguments w2 of
                  (Inl e, w3) \<Rightarrow> (Inl e, w3)
                | (Inr result, w3) \<Rightarrow> (Inr Called, w3))))"



lemma prompt_value_stdin_le:
  "prompt_value env label pn pt rq args w = (r, w') \<Longrightarrow> length (stdin w') \<le> length (stdin w)"
proof (induction env label pn pt rq args w arbitrary: r w' rule: prompt_value.induct)
  case (1 env label pn pt rq args w)
  obtain a w1 where inp: "input (label @ '': '') w = (a, w1)"
    by (cases "input (label @ '': '') w")
  note le = input_stdin_le [OF inp]
  show ?case
  proof (cases a)
    case (Inl e)
    with inp "1.prems" le show ?thesis by (simp add: prompt_value.simps)
  next
    case (Inr line)
    note IH1 = "1.IH"(1) [OF inp [symmetric, unfolded Inr] refl]
    note IH2 = "1.IH"(2) [OF inp [symmetric, unfolded Inr] refl]
    from "1.prems" inp Inr le IH1 IH2 show ?thesis
      by (auto simp: prompt_value.simps [of env label pn pt rq args w] Let_def
               split: if_splits sum.splits) fastforce+
  qed
qed


lemma prompt_props_stdin_le:
  "prompt_props env req ps args w = (r, w') \<Longrightarrow> length (stdin w') \<le> length (stdin w)"
proof (induction ps arbitrary: args w)
  case Nil
  then show ?case by simp
next
  case (Cons p ps)
  obtain pn d where p: "p = (pn, d)" by (cases p)
  obtain a w1 where pv: "prompt_value env (prop_label pn d (pn \<in> set req)) pn (prop_type_of d) (pn \<in> set req) args w = (a, w1)"
    by (cases "prompt_value env (prop_label pn d (pn \<in> set req)) pn (prop_type_of d) (pn \<in> set req) args w")
  note le = prompt_value_stdin_le [OF pv]
  show ?case
  proof (cases a)
    case (Inl e)
    with Cons.prems p pv le show ?thesis by simp
  next
    case (Inr args1)
    with Cons.prems p pv have "prompt_props env req ps args1 w1 = (r, w')" by simp
    from Cons.IH [OF this] le show ?thesis by simp
  qed
qed

lemma prompt_arguments_for_tool_stdin_le:
  "prompt_arguments_for_tool env t w = (r, w') \<Longrightarrow> length (stdin w') \<le> length (stdin w)"
  by (auto simp: prompt_arguments_for_tool_def Let_def split: if_splits prod.splits sum.splits
           dest!: prompt_props_stdin_le)

lemma await_stdin: "await op r w = (a, w') \<Longrightarrow> stdin w' = stdin w"
  by (auto simp: await_def split: sum.splits)

lemma call_tool_stdin: "call_tool env c t args w = (r, w') \<Longrightarrow> stdin w' = stdin w"
  by (auto simp: call_tool_def Let_def split: if_splits prod.splits sum.splits dest!: await_stdin)

lemma choose_tool_stdin_le:
  "choose_tool tools w = (r, w') \<Longrightarrow> length (stdin w') \<le> length (stdin w)"
  by (auto simp: choose_tool_def Let_def split: if_splits prod.splits sum.splits
           dest!: input_stdin_le)

lemma choose_tool_stdin_less:
  "tools \<noteq> [] \<Longrightarrow> choose_tool tools w = (Inr r, w') \<Longrightarrow> length (stdin w') < length (stdin w)"
  by (auto simp: choose_tool_def Let_def split: if_splits prod.splits sum.splits
           dest!: input_stdin_less)

lemma loop_body_stdin_le:
  "loop_body env c tools w = (r, w') \<Longrightarrow> length (stdin w') \<le> length (stdin w)"
  by (auto simp: loop_body_def split: prod.splits sum.splits option.splits
           dest!: choose_tool_stdin_le prompt_arguments_for_tool_stdin_le call_tool_stdin)

lemma loop_body_stdin_less:
  "tools \<noteq> [] \<Longrightarrow> loop_body env c tools w = (Inr r, w') \<Longrightarrow> length (stdin w') < length (stdin w)"
  by (auto simp: loop_body_def split: prod.splits sum.splits option.splits
           dest!: choose_tool_stdin_less prompt_arguments_for_tool_stdin_le call_tool_stdin)

text \<open>The \<^verbatim>\<open>while True\<close> loop of \<^verbatim>\<open>run\<close>; \<^verbatim>\<open>run\<close> enters it with a non-empty list only.\<close>

function (sequential) interactive_loop :: "env \<Rightarrow> client \<Rightarrow> tool list \<Rightarrow> world \<Rightarrow> (exn + unit) \<times> world" where
  "interactive_loop env c (t # ts) w =
     (case loop_body env c (t # ts) w of
        (Inl e, w1) \<Rightarrow>
          if is_Exception e then
            (Inr (), log_exc ERROR ''Error during interactive tool call: %s'' [AExn e] w1)
          else (Inl e, w1)
      | (Inr Reprompt, w1) \<Rightarrow> interactive_loop env c (t # ts) w1
      | (Inr Called, w1) \<Rightarrow>
          (case input (newline # ''Call another tool? [y/n]: '') w1 of
             (Inl e, w2) \<Rightarrow> (Inl e, w2)
           | (Inr line, w2) \<Rightarrow>
               let again = lower (strip line) in
               if again \<in> set [''n'', ''no'', []] then
                 (Inr (), log INFO ''User chose to exit interactive loop'' [] w2)
               else interactive_loop env c (t # ts) w2))"
  by pat_completeness auto
termination
proof (relation "measure (\<lambda>(env, c, tools, w). length (stdin w))", goal_cases)
  case 1
  show ?case by simp
next
  case (2 env c t ts w x w1 b)
  then show ?case using loop_body_stdin_less [of "t # ts" env c w Reprompt w1] by simp
next
  case (3 env c t ts w x w1 b xa w2 line again)
  then show ?case
    using loop_body_stdin_le [of env c "t # ts" w "Inr Called" w1]
          input_stdin_less [of "newline # ''Call another tool? [y/n]: ''" w1 line w2]
    by simp
qed

declare interactive_loop.simps [simp del]

text \<open>The first \<^verbatim>\<open>try\<close> block of \<^verbatim>\<open>run\<close>.\<close>

definition run_startup :: "env \<Rightarrow> client \<Rightarrow> world \<Rightarrow> (exn + tool list) \<times> world" where
  "run_startup env c w =
     (case initialize env c w of
        (Inl e, w1) \<Rightarrow> (Inl e, w1)
      | (Inr u, w1) \<Rightarrow> list_tools env c w1)"

definition run :: "env \<Rightarrow> client \<Rightarrow> world \<Rightarrow> (exn + unit) \<times> world" where
  "run env c w =
     (case run_startup env c w of
        (Inl e, w1) \<Rightarrow>
          if is_Exception e then
            (Inr (), log_exc ERROR ''Failed to start interactive loop: %s'' [AExn e] w1)
          else (Inl e, w1)
      | (Inr tools, w1) \<Rightarrow>
          if tools = [] then
            (Inr (), log WARNING ''Server returned no tools'' [] (print ''No tools available.'' w1))
          else interactive_loop env c tools w1)"

section \<open>Sample data\<close>

definition echo_tool :: tool where
  "echo_tool = \<lparr>tool_name = ''echo'', tool_description = Some ''repeat a message'',
     inputSchema = \<lparr>properties = Some [(''msg'', \<lparr>pd_description = None, pd_type = Some ''string''\<rparr>)],
                    required = Some [''msg'']\<rparr>\<rparr>"

definition add_tool :: tool where
  "add_tool = \<lparr>tool_name = ''add'', tool_description = None,
     inputSchema = \<lparr>properties = Some [(''a'', \<lparr>pd_description = Some ''first'', pd_type = Some ''integer''\<rparr>),
                                       (''b'', \<lparr>pd_description = None, pd_type = Some ''integer''\<rparr>)],
                    required = Some [''a'']\<rparr>\<rparr>"

definition sample_env :: env where
  "sample_env =
     \<lparr>float_of_str = (\<lambda>s. if s = ''1.5'' then Inr (Double 3 (-1))
                          else Inl (ValueError (''could not convert string to float: '' @ py_repr s))),
      json_loads = (\<lambda>s. if s = ''[]'' then Inr (JArr [])
                        else Inl (JSONDecodeError ''Expecting value: line 1 column 1 (char 0)'')),
      json_dumps = (\<lambda>j. case j of JStr s \<Rightarrow> s | _ \<Rightarrow> ''{}''),
      transport_enter = (\<lambda>tr cm. Inr \<lparr>ch_get_session_id = Some (Some ''s1'')\<rparr>),
      transport_exit = (\<lambda>tr exc. Inr ()),
      session_enter = (\<lambda>tr. Inr ()),
      session_exit = (\<lambda>tr exc. Inr ()),
      session_initialize = (\<lambda>tr. Inr ()),
      session_list_tools = (\<lambda>tr. Inr [echo_tool, add_tool]),
      session_call_tool = (\<lambda>tr nm args. Inr (JStr [CHR ''a'', backslash, CHR ''n'', CHR ''b'', backslash, CHR ''c'']))\<rparr>"

definition ready_client :: client where
  "ready_client =
     \<lparr>url = ''http://localhost:8000/mcp'', transport = ''http'',
      ctx = Some (StreamableHttp ''http://localhost:8000/mcp''),
      get_session_id = Some (Some ''s1''), session = Some ClientSession\<rparr>"

definition fresh_world :: "string list \<Rightarrow> world" where
  "fresh_world lines = \<lparr>stdin = lines, trace = []\<rparr>"

section \<open>Tool selection: results\<close>

lemma choose_tool_result:
  assumes "tools \<noteq> []" "stdin w = line # rest"
  shows "fst (choose_tool tools w) =
     (case py_int (strip line) of
        Inr i \<Rightarrow> if 1 \<le> i \<and> i \<le> int (length tools) then Inr (Some (tools ! nat (i - 1))) else Inr None
      | Inl e \<Rightarrow> Inr None)"
  using assms
  by (auto simp: choose_tool_def input_def Let_def split: sum.splits dest: py_int_raises_ValueError)

text \<open>
  C3. For a non-empty tool list and an operator line, \<open>choose_tool\<close> returns a tool
  exactly when the trimmed line parses as an integer \<open>i\<close> with \<open>1 \<le> i \<le> N\<close>, and the tool is
  the one at position \<open>i\<close> counted from one; every other line gives \<open>None\<close> as a normal
  result (no exception). For the empty list it returns \<open>None\<close> and leaves the world as it
  was: nothing printed, no input read.
\<close>

theorem choose_tool_selects:
  "(tools \<noteq> [] \<and> stdin w = line # rest \<longrightarrow>
      (\<forall>t. fst (choose_tool tools w) = Inr (Some t) \<longleftrightarrow>
           (\<exists>i. py_int (strip line) = Inr i \<and> 1 \<le> i \<and> i \<le> int (length tools) \<and> t = tools ! nat (i - 1)))
      \<and> ((\<nexists>i. py_int (strip line) = Inr i \<and> 1 \<le> i \<and> i \<le> int (length tools)) \<longrightarrow>
           fst (choose_tool tools w) = Inr None))
   \<and> choose_tool [] w = (Inr None, w)"
proof -
  have empty: "choose_tool [] w = (Inr None, w)"
    by (simp add: choose_tool_def)
  have "(\<forall>t. fst (choose_tool tools w) = Inr (Some t) \<longleftrightarrow>
           (\<exists>i. py_int (strip line) = Inr i \<and> 1 \<le> i \<and> i \<le> int (length tools) \<and> t = tools ! nat (i - 1)))
      \<and> ((\<nexists>i. py_int (strip line) = Inr i \<and> 1 \<le> i \<and> i \<le> int (length tools)) \<longrightarrow>
           fst (choose_tool tools w) = Inr None)"
    if "tools \<noteq> []" "stdin w = line # rest"
    using choose_tool_result [OF that]
    by (cases "py_int (strip line)") auto
  with empty show ?thesis by blast
qed

theorem choose_tool_selects_witness:
  "[echo_tool, add_tool] \<noteq> [] \<and> stdin \<lparr>stdin = ['' 2 '', ''x''], trace = []\<rparr> = '' 2 '' # [''x'']
   \<and> fst (choose_tool [echo_tool, add_tool] \<lparr>stdin = ['' 2 '', ''x''], trace = []\<rparr>) = Inr (Some add_tool)
   \<and> fst (choose_tool [echo_tool, add_tool] \<lparr>stdin = [''0'', ''x''], trace = []\<rparr>) = Inr None"
proof -
  have p: "py_int (strip '' 2 '') = Inr 2" by code_simp
  have q: "py_int (strip ''0'') = Inr 0" by code_simp
  from choose_tool_selects [of "[echo_tool, add_tool]" "\<lparr>stdin = ['' 2 '', ''x''], trace = []\<rparr>" "'' 2 ''" "[''x'']"]
       choose_tool_selects [of "[echo_tool, add_tool]" "\<lparr>stdin = [''0'', ''x''], trace = []\<rparr>" "''0''" "[''x'']"]
  show ?thesis by (simp add: p q)
qed

section \<open>Invocation: the readability rendering\<close>

lemma py_replace_newline_escape:
  "py_replace [backslash, CHR ''n''] [newline] s = unescape_newlines s"
proof (induction s rule: unescape_newlines.induct)
  case 1
  show ?case by (simp add: py_replace.simps [of _ _ "[]"])
next
  case (2 c)
  show ?case by (simp add: py_replace.simps [of _ _ "[c]"] py_replace.simps [of _ _ "[]"])
next
  case (3 c d cs)
  then show ?case
    by (simp add: py_replace.simps [of _ _ "c # d # cs"])
qed

lemma py_replace_strip_backslash:
  "py_replace [backslash] [] s = filter (\<lambda>c. c \<noteq> backslash) s"
proof (induction s)
  case Nil
  show ?case by (simp add: py_replace.simps [of _ _ "[]"])
next
  case (Cons c cs)
  then show ?case by (simp add: py_replace.simps [of _ _ "c # cs"])
qed

lemma result_final_refines: "result_final raw = readability_rendering raw"
  by (simp add: result_final_def readability_rendering_def py_replace_newline_escape
        py_replace_strip_backslash)

lemma call_tool_success:
  assumes "call_tool env c t arguments w = (Inr r, w')"
  shows "\<exists>tr. session_call_tool env tr (tool_name t) arguments = Inr r \<and>
          trace w' = tr @ [Ext (SessCallTool (tool_name t) arguments) Returned,
            Print (newline # ''[TOOL RESULT (raw JSON)]''),
            Print (json_dumps env r),
            Print (newline # ''[FINAL RESULT (rendered for readability, JSON formatting may be invalid)]''),
            Print (result_final (json_dumps env r))]"
  using assms
  by (auto simp: call_tool_def Let_def await_def print_def log_def split: if_splits sum.splits)

lemma result_final_no_backslash: "backslash \<notin> set (result_final raw)"
  by (simp add: result_final_refines readability_rendering_def)

lemma call_tool_returns:
  assumes "session c \<noteq> None"
    and "session_call_tool env
           (trace (print (json_dumps env (JObj arguments))
              (print (newline # ''Calling tool '' @ [sq] @ tool_name t @ [sq] @ '' with arguments:'')
                 (log INFO (''Calling tool '%s'' @ [sq]) [AStr (tool_name t)] w))))
           (tool_name t) arguments = Inr r"
  shows "fst (call_tool env c t arguments w) = Inr r"
  using assms by (simp add: call_tool_def Let_def await_def)

text \<open>
  C10. The readability rendering printed by \<open>call_tool\<close> (the two \<^verbatim>\<open>replace\<close> calls of the
  source, \<open>result_final\<close>) is the raw rendering with every backslash-n pair turned into a
  line break and then every remaining backslash removed (\<open>readability_rendering\<close>, written
  from the specification's words), so no backslash is left in it. A successful call prints
  the raw rendering and then this one, and it returns the dictionary the session produced,
  unchanged.
\<close>

theorem call_tool_readability_rendering:
  "result_final raw = readability_rendering raw
   \<and> backslash \<notin> set (result_final raw)
   \<and> (call_tool env c t arguments w = (Inr r, w') \<longrightarrow>
        (\<exists>tr. session_call_tool env tr (tool_name t) arguments = Inr r \<and>
              trace w' = tr @ [Ext (SessCallTool (tool_name t) arguments) Returned,
                Print (newline # ''[TOOL RESULT (raw JSON)]''),
                Print (json_dumps env r),
                Print (newline # ''[FINAL RESULT (rendered for readability, JSON formatting may be invalid)]''),
                Print (readability_rendering (json_dumps env r))]))
   \<and> (session c \<noteq> None \<and>
       session_call_tool env
           (trace (print (json_dumps env (JObj arguments))
              (print (newline # ''Calling tool '' @ [sq] @ tool_name t @ [sq] @ '' with arguments:'')
                 (log INFO (''Calling tool '%s'' @ [sq]) [AStr (tool_name t)] w))))
           (tool_name t) arguments = Inr r \<longrightarrow>
       fst (call_tool env c t arguments w) = Inr r)"
proof (intro conjI)
  show "result_final raw = readability_rendering raw"
    by (rule result_final_refines)
  show "backslash \<notin> set (result_final raw)"
    by (rule result_final_no_backslash)
  show "call_tool env c t arguments w = (Inr r, w') \<longrightarrow>
        (\<exists>tr. session_call_tool env tr (tool_name t) arguments = Inr r \<and>
              trace w' = tr @ [Ext (SessCallTool (tool_name t) arguments) Returned,
                Print (newline # ''[TOOL RESULT (raw JSON)]''),
                Print (json_dumps env r),
                Print (newline # ''[FINAL RESULT (rendered for readability, JSON formatting may be invalid)]''),
                Print (readability_rendering (json_dumps env r))])"
    using call_tool_success [of env c t arguments w r w']
    by (simp add: result_final_refines)
  show "session c \<noteq> None \<and>
       session_call_tool env
           (trace (print (json_dumps env (JObj arguments))
              (print (newline # ''Calling tool '' @ [sq] @ tool_name t @ [sq] @ '' with arguments:'')
                 (log INFO (''Calling tool '%s'' @ [sq]) [AStr (tool_name t)] w))))
           (tool_name t) arguments = Inr r \<longrightarrow>
       fst (call_tool env c t arguments w) = Inr r"
    using call_tool_returns [of c env arguments t w r] by blast
qed

theorem call_tool_readability_rendering_witness:
  "fst (call_tool sample_env ready_client echo_tool [(''msg'', JStr ''hi'')] (fresh_world [])) =
     Inr (JStr [CHR ''a'', backslash, CHR ''n'', CHR ''b'', backslash, CHR ''c''])
   \<and> last (trace (snd (call_tool sample_env ready_client echo_tool [(''msg'', JStr ''hi'')] (fresh_world [])))) =
     Print [CHR ''a'', newline, CHR ''b'', CHR ''c'']
   \<and> session ready_client \<noteq> None"
proof -
  have ev: "call_tool sample_env ready_client echo_tool [(''msg'', JStr ''hi'')] (fresh_world []) =
    (Inr (JStr [CHR ''a'', backslash, CHR ''n'', CHR ''b'', backslash, CHR ''c'']),
     \<lparr>stdin = [], trace =
        [Log INFO (''Calling tool '%s'' @ [sq]) [AStr ''echo''] False,
         Print (newline # ''Calling tool '' @ [sq] @ ''echo'' @ [sq] @ '' with arguments:''),
         Print ''{}'',
         Ext (SessCallTool ''echo'' [(''msg'', JStr ''hi'')]) Returned,
         Print (newline # ''[TOOL RESULT (raw JSON)]''),
         Print [CHR ''a'', backslash, CHR ''n'', CHR ''b'', backslash, CHR ''c''],
         Print (newline # ''[FINAL RESULT (rendered for readability, JSON formatting may be invalid)]''),
         Print (readability_rendering [CHR ''a'', backslash, CHR ''n'', CHR ''b'', backslash, CHR ''c''])]\<rparr>)"
    by (simp add: call_tool_def sample_env_def ready_client_def echo_tool_def fresh_world_def
          Let_def await_def print_def log_def emit_def result_final_refines)
  have rr: "readability_rendering [CHR ''a'', backslash, CHR ''n'', CHR ''b'', backslash, CHR ''c'']
      = [CHR ''a'', newline, CHR ''b'', CHR ''c'']"
    by (simp add: readability_rendering_def backslash_def newline_def)
  have r1: "result_final [CHR ''a'', backslash, CHR ''n'', CHR ''b'', backslash, CHR ''c'']
      = readability_rendering [CHR ''a'', backslash, CHR ''n'', CHR ''b'', backslash, CHR ''c'']"
    using call_tool_readability_rendering by (rule conjunct1)
  from ev rr r1 show ?thesis
    by (simp add: ready_client_def)
qed

end
